theory Spec2Isabelle
  imports Main
begin

section \<open>Data model of \<^verbatim>\<open>src/fhirkit/ValueSet.py\<close>\<close>

text \<open>
  The pydantic models of the source are records; an \<^verbatim>\<open>Optional[T]\<close> field is a
  \<open>T option\<close>, a \<^verbatim>\<open>List\<close>/\<^verbatim>\<open>Sequence\<close> field a list, a Python \<^verbatim>\<open>int\<close> an \<open>int\<close>.
  URLs are strings.  A record handed in is already an instance of its class, so its
  fields have passed their checks; the one model the methods build themselves is the
  \<^verbatim>\<open>VSInclude\<close> of lines 147 and 165-167, whose \<^verbatim>\<open>system\<close> is declared
  \<^verbatim>\<open>Optional[HttpUrl]\<close> (line 52): that check is part of the model, see \<open>VSInclude_init\<close>.
  Dates and time stamps are natural numbers read from a clock.  Where two classes of the
  source use the same field name the second record prefixes it with its class's role.
\<close>

type_synonym uri = string
type_synonym date = nat
type_synonym datetime = nat

text \<open>
  \<^verbatim>\<open>UsageContext\<close> is a class of \<^verbatim>\<open>fhirkit.elements\<close> that is not among the sources; no
  method of the source reads a usage context, so its values are opaque tokens.
\<close>

datatype UsageContext = UsageContext nat

text \<open>
  Modelled from the spec: class \<^verbatim>\<open>Coding\<close> of \<^verbatim>\<open>fhirkit.elements\<close> is imported by the
  source but its file is not among the sources.  The spec's CodedConcept is
  \<^verbatim>\<open>{system: URI, code: string, display?: string, designations}\<close>; the source also
  reads \<^verbatim>\<open>c.version\<close> (line 218).
\<close>

record Coding =
  system :: uri
  version :: "string option"
  code :: string
  display :: "string option"

record VSDesignation =
  language :: "string option"
  use :: "Coding option"
  designation_value :: string

record VSConcept =
  concept_code :: string
  concept_display :: "string option"
  concept_designation :: "VSDesignation list"

datatype filter_op =
  OpEq | OpIsA | OpDescendentOf | OpIsNotA | OpRegex | OpIn | OpNotIn
  | OpGeneralizes | OpChildOf | OpDescendentLeaf | OpExists

record VSFilter =
  filter_property :: string
  op :: filter_op
  filter_value :: string

record VSInclude =
  include_system :: "uri option"
  include_version :: "string option"
  concept :: "VSConcept list"
  include_filter :: "VSFilter list"
  valueSet :: "uri list"

record VSCompose =
  compose_include :: "VSInclude list"
  exclude :: "VSInclude list"
  property :: "string list"
  lockedDate :: "date option"
  inactive :: "bool option"

text \<open>\<^verbatim>\<open>class VSCodingWithDesignation(Coding)\<close>: the subclass is a record extension.\<close>

record VSCodingWithDesignation = Coding +
  designation :: "VSDesignation list"

record VSExpansion =
  offset :: "int option"
  total :: "int option"
  contains :: "VSCodingWithDesignation list"
  expansion_identifier :: "uri option"
  timestamp :: datetime

record ValueSet =
  url :: "uri option"
  name :: "string option"
  compose :: "VSCompose option"
  expansion :: "VSExpansion option"
  useContext :: "UsageContext list"

text \<open>
  Exceptions are values.  The \<^verbatim>\<open>assert\<close> statements of the source carry three distinct
  messages (two in the methods, one in the constructor); the assertion that failed is
  kept so that the errors the spec names apart stay apart:
  \<^item> \<open>AssertionError NoExpansionAfterExpand\<close>: "ValueSet has no expansion even after
    running self.expand()" (the spec's ExpansionInvariantViolated);
  \<^item> \<open>AssertionError ExpansionNoneAfterInit\<close>: "self.expansion is None after
    initialisation with self.init_expansion" (the spec's ExpansionNotInitialized);
  \<^item> \<open>AssertionError ExpansionInKwargs\<close>: "When passing an iterable with concepts,
    expansion should be None";
  \<^item> \<open>ValueError\<close>: the unpacking \<^verbatim>\<open>first_code, *_ = iter(codes)\<close> of an empty batch
    (the spec's EmptyBatch);
  \<^item> \<open>AttributeError\<close>: reading \<^verbatim>\<open>.include\<close> of a \<^verbatim>\<open>compose\<close> that is \<^verbatim>\<open>None\<close>;
  \<^item> \<open>ValidationError\<close>: pydantic's, raised by \<^verbatim>\<open>VSInclude(system=...)\<close> for a system
    that is not an \<^verbatim>\<open>HttpUrl\<close>;
  \<^item> \<open>NotImplementedError\<close> (the spec's ExpansionUnsupported) and \<open>UserWarning\<close>
    (the spec's RedundantExpansionWarning).
\<close>

datatype assertion = NoExpansionAfterExpand | ExpansionNoneAfterInit | ExpansionInKwargs

datatype error =
  AssertionError assertion | NotImplementedError | UserWarning | AttributeError | ValueError
  | ValidationError

section \<open>Reading a value set\<close>

text \<open>\<^verbatim>\<open>has_expanded\<close> (lines 106-108).\<close>

definition has_expanded :: "ValueSet \<Rightarrow> bool" where
  "has_expanded self = (expansion self \<noteq> None)"

text \<open>
  \<^verbatim>\<open>_expand\<close> (lines 110-114): the body is the assertion alone; it calls nothing and
  writes nothing, so it returns no new state.
\<close>

definition private_expand :: "ValueSet \<Rightarrow> error + unit" where
  "private_expand self =
     (if has_expanded self then Inr () else Inl (AssertionError NoExpansionAfterExpand))"

text \<open>Python's \<^verbatim>\<open>x or y\<close> on an optional integer: \<^verbatim>\<open>None\<close> and \<^verbatim>\<open>0\<close> are falsy.\<close>

definition py_or :: "int option \<Rightarrow> int \<Rightarrow> int" where
  "py_or x y = (case x of None \<Rightarrow> y | Some n \<Rightarrow> if n = 0 then y else n)"

text \<open>\<^verbatim>\<open>__len__\<close> (lines 93-99).\<close>

definition ValueSet_len :: "ValueSet \<Rightarrow> error + int" where
  "ValueSet_len self =
     (case (if \<not> has_expanded self
            then (case private_expand self of
                    Inl e \<Rightarrow> Inl e
                  | Inr _ \<Rightarrow> if has_expanded self then Inr ()
                             else Inl (AssertionError NoExpansionAfterExpand))
            else Inr ()) of
        Inl e \<Rightarrow> Inl e
      | Inr _ \<Rightarrow>
          (case expansion self of
             None \<Rightarrow> Inl AttributeError
           | Some e \<Rightarrow> Inr (py_or (total e) (int (length (contains e))))))"

text \<open>
  \<^verbatim>\<open>__iter__\<close> (lines 87-91): the generator's body runs at the first \<^verbatim>\<open>next\<close>; the
  result is the raised error or the codings it yields, in order.
\<close>

definition ValueSet_iter :: "ValueSet \<Rightarrow> error + VSCodingWithDesignation list" where
  "ValueSet_iter self =
     (case (if \<not> has_expanded self then private_expand self else Inr ()) of
        Inl e \<Rightarrow> Inl e
      | Inr _ \<Rightarrow>
          (case expansion self of
             None \<Rightarrow> Inl AttributeError
           | Some e \<Rightarrow> Inr (contains e)))"

section \<open>Membership\<close>

text \<open>
  Modelled from the spec: class \<^verbatim>\<open>CodeableConcept\<close> of \<^verbatim>\<open>fhirkit.elements\<close> is not
  among the sources; the spec describes it as an ordered list of alternative codings
  with a free-text summary, and the source reads \<^verbatim>\<open>code.coding\<close> (line 239).
\<close>

record CodeableConcept =
  coding :: "Coding list"
  text_summary :: "string option"

text \<open>
  What \<^verbatim>\<open>__contains__\<close> can be handed: Python checks no argument type, so besides an
  instance of \<^verbatim>\<open>Coding\<close> (the class itself or its subclass
  \<^verbatim>\<open>VSCodingWithDesignation\<close>) or of \<^verbatim>\<open>CodeableConcept\<close> the item may be any other
  object.
\<close>

datatype py_object = PyNone | PyStr string | PyInt int | PyBool bool

datatype item =
  CodingItem Coding
  | VSCodingItem VSCodingWithDesignation
  | CodeableConceptItem CodeableConcept
  | OtherItem py_object

fun isinstance_Coding :: "item \<Rightarrow> bool" where
  "isinstance_Coding (CodingItem _) = True"
| "isinstance_Coding (VSCodingItem _) = True"
| "isinstance_Coding _ = False"

fun isinstance_CodeableConcept :: "item \<Rightarrow> bool" where
  "isinstance_CodeableConcept (CodeableConceptItem _) = True"
| "isinstance_CodeableConcept _ = False"

text \<open>
  Modelled from the spec: \<^verbatim>\<open>Coding.__eq__\<close>, which \<^verbatim>\<open>c == code\<close> (line 241) calls, is
  defined with the missing class \<^verbatim>\<open>Coding\<close>.  The spec: "Equality is defined as
  (system, code) equality; display and designations are not part of identity."  It
  compares any two instances of \<^verbatim>\<open>Coding\<close>, of the class itself or of a subclass.
\<close>

definition coding_key :: "'a Coding_scheme \<Rightarrow> uri \<times> string" where
  "coding_key c = (system c, code c)"

definition coding_eq :: "'a Coding_scheme \<Rightarrow> 'b Coding_scheme \<Rightarrow> bool" where
  "coding_eq c d = (coding_key c = coding_key d)"

text \<open>
  Python's \<^verbatim>\<open>any\<close> over a generator: the elements are computed one at a time, the first
  true one ends the loop, and an exception raised while computing an element
  propagates.
\<close>

fun py_any :: "(error + bool) list \<Rightarrow> error + bool" where
  "py_any [] = Inr False"
| "py_any (Inl e # rs) = Inl e"
| "py_any (Inr b # rs) = (if b then Inr True else py_any rs)"

text \<open>
  The two classes of the source.  \<^verbatim>\<open>expand\<close> and \<^verbatim>\<open>validate_code\<close> are the methods
  that \<^verbatim>\<open>SimpleValueSet\<close> overrides, so they dispatch on the class of \<^verbatim>\<open>self\<close>.
\<close>

datatype vs_class = ValueSetClass | SimpleValueSetClass

text \<open>
  \<^verbatim>\<open>__contains__\<close> (lines 101-104) and \<^verbatim>\<open>validate_code\<close> (lines 134-135 in the base
  class, 237-243 in \<^verbatim>\<open>SimpleValueSet\<close>).  They call each other: \<^verbatim>\<open>c in self\<close> of line
  239 is \<^verbatim>\<open>__contains__\<close> again, on a coding of the codeable concept.
\<close>

fun item_rank :: "item \<Rightarrow> nat" where
  "item_rank (CodeableConceptItem _) = 1"
| "item_rank _ = 0"

function ValueSet_contains :: "vs_class \<Rightarrow> ValueSet \<Rightarrow> item \<Rightarrow> error + bool"
  and validate_code :: "vs_class \<Rightarrow> ValueSet \<Rightarrow> item \<Rightarrow> error + bool"
where
  "ValueSet_contains cls self item =
     (if \<not> (isinstance_Coding item \<or> isinstance_CodeableConcept item) then Inr False
      else validate_code cls self item)"
| "validate_code ValueSetClass self item = Inl NotImplementedError"
| "validate_code SimpleValueSetClass self (CodeableConceptItem cc) =
     py_any (map (\<lambda>c. ValueSet_contains SimpleValueSetClass self (CodingItem c)) (coding cc))"
| "validate_code SimpleValueSetClass self (CodingItem c) =
     (case ValueSet_iter self of
        Inl e \<Rightarrow> Inl e
      | Inr cs \<Rightarrow> py_any (map (\<lambda>d. Inr (coding_eq d c)) cs))"
| "validate_code SimpleValueSetClass self (VSCodingItem c) =
     (case ValueSet_iter self of
        Inl e \<Rightarrow> Inl e
      | Inr cs \<Rightarrow> py_any (map (\<lambda>d. Inr (coding_eq d c)) cs))"
| "validate_code SimpleValueSetClass self (OtherItem x) = Inr False"
  by pat_completeness auto
termination
  by (relation "measure (\<lambda>x. case x of
          Inl (cls, self, item) \<Rightarrow> 2 * item_rank item + 1
        | Inr (cls, self, item) \<Rightarrow> 2 * item_rank item)") auto

section \<open>Expanding and mutating a value set\<close>

text \<open>
  A method that writes to \<^verbatim>\<open>self\<close> returns the outcome of the call together with the
  object as the call leaves it, also when it raises: a Python exception does not undo
  the writes made before it.
\<close>

type_synonym outcome = "(error + unit) \<times> ValueSet"

text \<open>
  \<^verbatim>\<open>expand\<close>: lines 116-132 in the base class (\<^verbatim>\<open>raise NotImplementedError()\<close>), lines
  232-235 in \<^verbatim>\<open>SimpleValueSet\<close> (\<^verbatim>\<open>raise UserWarning(...)\<close>).
\<close>

fun expand :: "vs_class \<Rightarrow> ValueSet \<Rightarrow> outcome" where
  "expand ValueSetClass self = (Inl NotImplementedError, self)"
| "expand SimpleValueSetClass self = (Inl UserWarning, self)"

text \<open>
  \<^verbatim>\<open>init_expansion\<close> (lines 137-138): \<^verbatim>\<open>VSExpansion()\<close> with every field at its
  default; the time stamp's default factory reads the clock, here the argument \<open>now\<close>.
\<close>

definition VSExpansion_default :: "datetime \<Rightarrow> VSExpansion" where
  "VSExpansion_default now =
     \<lparr>offset = None, total = None, contains = [], expansion_identifier = None,
      timestamp = now\<rparr>"

definition init_expansion :: "datetime \<Rightarrow> ValueSet \<Rightarrow> ValueSet" where
  "init_expansion now self = self\<lparr>expansion := Some (VSExpansion_default now)\<rparr>"

text \<open>
  \<^verbatim>\<open>VSInclude(system=..., concept=[...])\<close> (lines 51-56).  The field \<^verbatim>\<open>system\<close> is
  declared \<^verbatim>\<open>Optional[HttpUrl]\<close>, so pydantic checks the string handed in and raises
  \<^verbatim>\<open>ValidationError\<close> when it is not an HTTP URL.  The check is pydantic's, a library
  outside the repository: it is the parameter \<open>http_url\<close> of the constructor and of the
  two methods that call it.  When the system passes, the other fields take their
  defaults, and pydantic turns each coding handed in as a concept into a
  \<^verbatim>\<open>VSConcept\<close>, keeping the fields that class declares.
\<close>

type_synonym url_check = "uri \<Rightarrow> bool"

definition VSConcept_of :: "VSCodingWithDesignation \<Rightarrow> VSConcept" where
  "VSConcept_of c =
     \<lparr>concept_code = code c, concept_display = display c,
      concept_designation = designation c\<rparr>"

definition VSInclude_init ::
  "url_check \<Rightarrow> uri \<Rightarrow> VSCodingWithDesignation list \<Rightarrow> error + VSInclude" where
  "VSInclude_init http_url s cs =
     (if http_url s
      then Inr \<lparr>include_system = Some s, include_version = None,
                concept = map VSConcept_of cs, include_filter = [], valueSet = []\<rparr>
      else Inl ValidationError)"

text \<open>
  \<^verbatim>\<open>self.compose.include.append(VSInclude(...))\<close>: the attribute chain is evaluated
  first and fails on a \<^verbatim>\<open>compose\<close> that is \<^verbatim>\<open>None\<close>; then the argument is evaluated,
  which is the constructor call and may raise; then the rule is appended.
\<close>

definition compose_include_append ::
  "ValueSet \<Rightarrow> error + VSInclude \<Rightarrow> error + ValueSet" where
  "compose_include_append self built =
     (case compose self of
        None \<Rightarrow> Inl AttributeError
      | Some c \<Rightarrow>
          (case built of
             Inl e \<Rightarrow> Inl e
           | Inr rule \<Rightarrow>
               Inr (self\<lparr>compose :=
                      Some (c\<lparr>compose_include := compose_include c @ [rule]\<rparr>)\<rparr>)))"

text \<open>
  The last two statements of \<^verbatim>\<open>append\<close> and of \<^verbatim>\<open>extend\<close>: the assertion that an
  expansion is there, and the write to \<^verbatim>\<open>expansion.contains\<close>.
\<close>

definition expansion_contains_extend ::
  "ValueSet \<Rightarrow> VSCodingWithDesignation list \<Rightarrow> outcome" where
  "expansion_contains_extend self cs =
     (case expansion self of
        None \<Rightarrow> (Inl (AssertionError ExpansionNoneAfterInit), self)
      | Some e \<Rightarrow> (Inr (), self\<lparr>expansion := Some (e\<lparr>contains := contains e @ cs\<rparr>)\<rparr>))"

text \<open>\<^verbatim>\<open>append\<close> (lines 140-155).\<close>

definition ValueSet_append ::
  "url_check \<Rightarrow> datetime \<Rightarrow> ValueSet \<Rightarrow> VSCodingWithDesignation \<Rightarrow> bool \<Rightarrow> bool
     \<Rightarrow> outcome" where
  "ValueSet_append http_url now self c extend_compose init_expansion_if_none =
     (case (if extend_compose
            then compose_include_append self (VSInclude_init http_url (system c) [c])
            else Inr self) of
        Inl e \<Rightarrow> (Inl e, self)
      | Inr self1 \<Rightarrow>
          expansion_contains_extend
            (if \<not> has_expanded self1 \<and> init_expansion_if_none
             then init_expansion now self1 else self1)
            [c])"

text \<open>
  \<^verbatim>\<open>extend\<close> (lines 157-174).  The batch is a sequence, as the spec has it.  Line 164
  unpacks the first code before line 165 reads \<^verbatim>\<open>self.compose\<close>; line 169 tests
  \<^verbatim>\<open>self.has_expanded\<close>, without the \<^verbatim>\<open>not\<close> of line 149.
\<close>

definition ValueSet_extend ::
  "url_check \<Rightarrow> datetime \<Rightarrow> ValueSet \<Rightarrow> VSCodingWithDesignation list \<Rightarrow> bool \<Rightarrow> bool
     \<Rightarrow> outcome" where
  "ValueSet_extend http_url now self codes extend_compose init_expansion_if_none =
     (case (if extend_compose
            then (case codes of
                    [] \<Rightarrow> Inl ValueError
                  | first_code # _ \<Rightarrow>
                      compose_include_append self
                        (VSInclude_init http_url (system first_code) codes))
            else Inr self) of
        Inl e \<Rightarrow> (Inl e, self)
      | Inr self1 \<Rightarrow>
          expansion_contains_extend
            (if has_expanded self1 \<and> init_expansion_if_none
             then init_expansion now self1 else self1)
            codes)"

section \<open>Constructing an enumerated value set\<close>

text \<open>
  The keyword arguments of the constructor.  For \<^verbatim>\<open>expansion\<close> the source asks whether
  the key is there (line 184), so that field has two layers: \<open>None\<close> is no key,
  \<open>Some None\<close> is \<^verbatim>\<open>expansion=None\<close>.  The narrative \<^verbatim>\<open>text\<close> that lines 190-226 build
  (an HTML table of the codings) is presentation only and is left out of the model.
\<close>

record kwargs =
  kw_url :: "uri option"
  kw_name :: "string option"
  kw_compose :: "VSCompose option"
  kw_expansion :: "VSExpansion option option"
  kw_useContext :: "UsageContext list"

text \<open>The constructor of the base class: each field from its keyword, else its default.\<close>

definition ValueSet_init :: "kwargs \<Rightarrow> ValueSet" where
  "ValueSet_init kw =
     \<lparr>url = kw_url kw, name = kw_name kw, compose = kw_compose kw,
      expansion = (case kw_expansion kw of None \<Rightarrow> None | Some e \<Rightarrow> e),
      useContext = kw_useContext kw\<rparr>"

text \<open>\<^verbatim>\<open>SimpleValueSet.__init__\<close> (lines 180-230).\<close>

definition SimpleValueSet_init ::
  "datetime \<Rightarrow> VSCodingWithDesignation list \<Rightarrow> kwargs \<Rightarrow> error + ValueSet" where
  "SimpleValueSet_init now args kw =
     (if length args > 0
      then (if kw_expansion kw \<noteq> None then Inl (AssertionError ExpansionInKwargs)
            else Inr (ValueSet_init
                   (kw\<lparr>kw_expansion := Some (Some
                      \<lparr>offset = None, total = Some (int (length args)), contains = args,
                       expansion_identifier = None, timestamp = now\<rparr>)\<rparr>)))
      else Inr (ValueSet_init kw))"

section \<open>Example values\<close>

text \<open>
  Concrete codings and value sets at which the properties below are instantiated: the
  codings of the spec's scenario (\<^verbatim>\<open>http://x|A\<close>, \<^verbatim>\<open>http://x|B\<close>, \<^verbatim>\<open>http://y|A\<close>), a
  second \<^verbatim>\<open>http://x|A\<close> with another display and a designation, two codings of the
  system \<^verbatim>\<open>http://x.org\<close>, which is an HTTP URL for pydantic, a constructor call
  without keyword arguments, and the value sets such calls and \<^verbatim>\<open>ValueSet(...)\<close> give.
\<close>

definition coding_A :: VSCodingWithDesignation where
  "coding_A =
     \<lparr>system = ''http://x'', version = None, code = ''A'', display = None,
      designation = []\<rparr>"

definition coding_B :: VSCodingWithDesignation where
  "coding_B =
     \<lparr>system = ''http://x'', version = None, code = ''B'', display = Some ''bee'',
      designation = []\<rparr>"

definition coding_yA :: VSCodingWithDesignation where
  "coding_yA =
     \<lparr>system = ''http://y'', version = None, code = ''A'', display = None,
      designation = []\<rparr>"

definition coding_A_labelled :: VSCodingWithDesignation where
  "coding_A_labelled =
     \<lparr>system = ''http://x'', version = None, code = ''A'', display = Some ''ay'',
      designation = [\<lparr>language = Some ''nl'', use = None, designation_value = ''aa''\<rparr>]\<rparr>"

definition coding_orgA :: VSCodingWithDesignation where
  "coding_orgA =
     \<lparr>system = ''http://x.org'', version = None, code = ''A'', display = None,
      designation = []\<rparr>"

definition coding_orgB :: VSCodingWithDesignation where
  "coding_orgB =
     \<lparr>system = ''http://x.org'', version = None, code = ''B'', display = None,
      designation = []\<rparr>"

text \<open>
  A check to put for the parameter \<open>http_url\<close> at the examples.  It is the part of
  pydantic's \<^verbatim>\<open>HttpUrl\<close> rule that tells the systems of the examples apart: the scheme
  is \<^verbatim>\<open>http\<close> or \<^verbatim>\<open>https\<close>, and the host, which ends at the first of \<^verbatim>\<open>/ : ? #\<close>, is
  a name that ends in a dot and a top-level domain of at least two letters.  So
  \<^verbatim>\<open>http://x.org\<close> passes and \<^verbatim>\<open>http://x\<close> does not.  The rest of the library's URL
  grammar (user information, ports, hosts given as IP addresses, the length bound) is
  not described by it; every theorem that is not about an example holds for any check.
\<close>

definition url_host :: "uri \<Rightarrow> string option" where
  "url_host s =
     (if take 7 s = ''http://''
      then Some (takeWhile (\<lambda>c. c \<notin> set ''/:?#'') (drop 7 s))
      else if take 8 s = ''https://''
      then Some (takeWhile (\<lambda>c. c \<notin> set ''/:?#'') (drop 8 s))
      else None)"

definition host_tld :: "string \<Rightarrow> string" where
  "host_tld h = rev (takeWhile (\<lambda>c. c \<noteq> CHR ''.'') (rev h))"

definition HttpUrl_check :: url_check where
  "HttpUrl_check s =
     (case url_host s of
        None \<Rightarrow> False
      | Some h \<Rightarrow>
          2 \<le> length (host_tld h) \<and> length (host_tld h) + 1 < length h
          \<and> list_all (\<lambda>c. c \<in> set ''abcdefghijklmnopqrstuvwxyzABCDEFGHIJKLMNOPQRSTUVWXYZ'')
                (host_tld h))"

definition kwargs_none :: kwargs where
  "kwargs_none =
     \<lparr>kw_url = None, kw_name = None, kw_compose = None, kw_expansion = None,
      kw_useContext = []\<rparr>"

definition compose_empty :: VSCompose where
  "compose_empty =
     \<lparr>compose_include = [], exclude = [], property = [], lockedDate = None,
      inactive = None\<rparr>"

text \<open>\<^verbatim>\<open>ValueSet()\<close> and \<^verbatim>\<open>SimpleValueSet()\<close>: no composition, no expansion.\<close>

definition VS_blank :: ValueSet where
  "VS_blank =
     \<lparr>url = None, name = None, compose = None, expansion = None, useContext = []\<rparr>"

text \<open>\<^verbatim>\<open>ValueSet(compose=VSCompose(include=[]))\<close>: a composition, no expansion.\<close>

definition VS_rules :: ValueSet where
  "VS_rules = VS_blank\<lparr>compose := Some compose_empty\<rparr>"

text \<open>What \<^verbatim>\<open>SimpleValueSet(coding_A)\<close> builds when the clock reads 1.\<close>

definition VS_A :: ValueSet where
  "VS_A =
     VS_blank\<lparr>expansion := Some
       \<lparr>offset = None, total = Some 1, contains = [coding_A],
        expansion_identifier = None, timestamp = 1\<rparr>\<rparr>"

text \<open>A composition and an expansion holding \<^verbatim>\<open>coding_orgA\<close>, with no total.\<close>

definition VS_listed :: ValueSet where
  "VS_listed =
     VS_rules\<lparr>expansion := Some
       \<lparr>offset = None, total = None, contains = [coding_orgA],
        expansion_identifier = None, timestamp = 1\<rparr>\<rparr>"

text \<open>An expansion of two codings whose total is present and 0.\<close>

definition VS_zero_total :: ValueSet where
  "VS_zero_total =
     VS_blank\<lparr>expansion := Some
       \<lparr>offset = None, total = Some 0, contains = [coding_A, coding_B],
        expansion_identifier = None, timestamp = 1\<rparr>\<rparr>"

lemmas example_defs =
  coding_A_def coding_B_def coding_yA_def coding_A_labelled_def coding_orgA_def
  coding_orgB_def kwargs_none_def
  compose_empty_def VS_blank_def VS_rules_def VS_A_def VS_listed_def VS_zero_total_def

section \<open>Properties\<close>

subsection \<open>C10: a total of zero\<close>

text \<open>
  C10.  For every expanded value set whose \<^verbatim>\<open>expansion.total\<close> is present but equal to
  0, \<^verbatim>\<open>__len__\<close> returns the length of \<^verbatim>\<open>expansion.contains\<close>: the \<^verbatim>\<open>or\<close> of line 99
  treats a present total of 0 like an absent one.
\<close>

theorem len_total_zero:
  assumes "expansion self = Some e" and "total e = Some 0"
  shows "ValueSet_len self = Inr (int (length (contains e)))"
  using assms by (simp add: ValueSet_len_def has_expanded_def py_or_def)

theorem len_total_zero_witness:
  "expansion VS_zero_total \<noteq> None
   \<and> map_option total (expansion VS_zero_total) = Some (Some 0)
   \<and> ValueSet_len VS_zero_total = Inr 2"
proof -
  let ?e = "\<lparr>offset = None, total = Some 0, contains = [coding_A, coding_B],
             expansion_identifier = None, timestamp = 1\<rparr>"
  have h1: "expansion VS_zero_total = Some ?e"
    by (simp add: VS_zero_total_def)
  have h2: "total ?e = Some 0"
    by simp
  from len_total_zero [OF h1 h2] h1 show ?thesis
    by simp
qed

subsection \<open>C2: reading a value set that has no expansion\<close>

text \<open>
  C2 says that \<^verbatim>\<open>__len__\<close> (and starting an iteration) on a value set without an
  expansion invokes the variant's \<^verbatim>\<open>expand()\<close> and then returns the count.  The
  docstring of \<^verbatim>\<open>_expand\<close> ("Private wrapper method for self.expand"), its assertion
  message ("even after running self.expand()") and the docstring of \<^verbatim>\<open>expand\<close>
  ("Implementing this method enables you to iterate over the ValueSet") say the same,
  but the body of \<^verbatim>\<open>_expand\<close> never calls \<^verbatim>\<open>expand\<close>.  What the code does: for every
  value set without an expansion, of whatever class, both reads raise the assertion
  error and no count is ever returned.
\<close>

theorem len_without_expansion_fails:
  assumes "expansion self = None"
  shows "ValueSet_len self = Inl (AssertionError NoExpansionAfterExpand)
     \<and> ValueSet_iter self = Inl (AssertionError NoExpansionAfterExpand)"
  using assms
  by (simp add: ValueSet_len_def ValueSet_iter_def private_expand_def has_expanded_def)

theorem len_without_expansion_fails_witness:
  "expansion VS_rules = None
   \<and> ValueSet_len VS_rules = Inl (AssertionError NoExpansionAfterExpand)
   \<and> ValueSet_iter VS_rules = Inl (AssertionError NoExpansionAfterExpand)"
proof -
  have h: "expansion VS_rules = None"
    by (simp add: VS_rules_def VS_blank_def)
  from len_without_expansion_fails [OF h] h show ?thesis
    by simp
qed

subsection \<open>C6: expand on an enumerated value set\<close>

text \<open>
  C6 as stated (the call signals a warning, raises no error and so returns) fails:
  \<^verbatim>\<open>SimpleValueSet.expand\<close> is the single statement \<^verbatim>\<open>raise UserWarning(...)\<close>, so the
  call on the value set \<^verbatim>\<open>SimpleValueSet(coding_A)\<close> does not return normally.
\<close>

theorem expand_enumerated_counterexample:
  "fst (expand SimpleValueSetClass VS_A) \<noteq> Inr ()"
  by simp

text \<open>
  C6, amended.  Calling \<^verbatim>\<open>expand()\<close> on an enumerated value set always raises the
  \<^verbatim>\<open>UserWarning\<close> exception (the RedundantExpansionWarning), so the call never returns
  normally; it writes nothing: the value set, its expansion included, is unchanged.
\<close>

theorem expand_enumerated_raises_warning:
  "expand SimpleValueSetClass self = (Inl UserWarning, self)"
  by simp

subsection \<open>C7: extend with an empty batch\<close>

text \<open>
  C7 as stated (for every setting of the flags an empty batch fails with EmptyBatch)
  fails: the only place where an empty batch raises is the unpacking of line 164, which
  runs under \<^verbatim>\<open>if extend_compose\<close>.  With \<^verbatim>\<open>extend_compose=False\<close> and
  \<^verbatim>\<open>init_expansion_if_none=False\<close> the call on \<^verbatim>\<open>SimpleValueSet(coding_A)\<close> returns
  normally.
\<close>

theorem extend_empty_batch_counterexample:
  "ValueSet_extend HttpUrl_check 2 VS_A [] False False = (Inr (), VS_A)"
  by (simp add: ValueSet_extend_def expansion_contains_extend_def VS_A_def VS_blank_def)

text \<open>
  C7, amended.  For every value set and every setting of \<^verbatim>\<open>init_expansion_if_none\<close>,
  \<^verbatim>\<open>extend\<close> with an empty batch and \<^verbatim>\<open>extend_compose=True\<close> fails with the
  \<^verbatim>\<open>ValueError\<close> of the unpacking (EmptyBatch) and leaves the value set unchanged; with
  \<^verbatim>\<open>extend_compose=False\<close> an empty batch never fails with that error.
\<close>

theorem extend_empty_batch_error:
  "ValueSet_extend http_url now self [] True init = (Inl ValueError, self)
   \<and> fst (ValueSet_extend http_url now self [] False init) \<noteq> Inl ValueError"
  by (simp add: ValueSet_extend_def expansion_contains_extend_def split: option.split)

subsection \<open>C8: membership of an item of another type\<close>

text \<open>
  C8.  For every value set (of either class) and every item, \<^verbatim>\<open>__contains__\<close> returns
  \<^verbatim>\<open>False\<close>, and raises nothing, when the item is neither a \<^verbatim>\<open>Coding\<close> nor a
  \<^verbatim>\<open>CodeableConcept\<close>; for an item of an accepted type its outcome is exactly the
  outcome of \<^verbatim>\<open>validate_code\<close>, a raised error included.
\<close>

theorem contains_type_mismatch:
  "(\<not> isinstance_Coding item \<and> \<not> isinstance_CodeableConcept item
      \<longrightarrow> ValueSet_contains cls self item = Inr False)
   \<and> (isinstance_Coding item \<or> isinstance_CodeableConcept item
      \<longrightarrow> ValueSet_contains cls self item = validate_code cls self item)"
  by simp

text \<open>
  At the string \<^verbatim>\<open>"A"\<close> on a value set of the base class, whose \<^verbatim>\<open>validate_code\<close>
  raises, and at a coding and a codeable concept on an enumerated value set.
\<close>

theorem contains_type_mismatch_witness:
  "ValueSet_contains ValueSetClass VS_blank (OtherItem (PyStr ''A'')) = Inr False
   \<and> validate_code ValueSetClass VS_blank (OtherItem (PyStr ''A'')) = Inl NotImplementedError
   \<and> ValueSet_contains SimpleValueSetClass VS_A (VSCodingItem coding_A)
       = validate_code SimpleValueSetClass VS_A (VSCodingItem coding_A)
   \<and> ValueSet_contains SimpleValueSetClass VS_A (VSCodingItem coding_A) = Inr True
   \<and> ValueSet_contains SimpleValueSetClass VS_A
        (CodeableConceptItem \<lparr>coding = [Coding.truncate coding_B, Coding.truncate coding_A],
           text_summary = None\<rparr>) = Inr True"
proof -
  have a: "\<not> isinstance_Coding (OtherItem (PyStr ''A''))
      \<and> \<not> isinstance_CodeableConcept (OtherItem (PyStr ''A''))"
    by simp
  have b: "isinstance_Coding (VSCodingItem coding_A)
      \<or> isinstance_CodeableConcept (VSCodingItem coding_A)"
    by simp
  have m: "validate_code SimpleValueSetClass VS_A (VSCodingItem coding_A) = Inr True"
    by (simp add: ValueSet_iter_def has_expanded_def coding_eq_def example_defs)
  have c: "validate_code SimpleValueSetClass VS_A
        (CodeableConceptItem \<lparr>coding = [Coding.truncate coding_B, Coding.truncate coding_A],
           text_summary = None\<rparr>) = Inr True"
    by (simp add: ValueSet_iter_def has_expanded_def coding_eq_def coding_key_def
          Coding.truncate_def example_defs)
  from contains_type_mismatch [of "OtherItem (PyStr ''A'')" ValueSetClass VS_blank] a
    contains_type_mismatch [of "VSCodingItem coding_A" SimpleValueSetClass VS_A] b m c
  show ?thesis
    by simp
qed

subsection \<open>C9: mutating a composition that is absent\<close>

text \<open>
  C9 as stated (every call of \<^verbatim>\<open>append\<close> or \<^verbatim>\<open>extend\<close> with \<^verbatim>\<open>extend_compose=True\<close>
  on a value set without a composition fails by dereferencing the missing composition)
  fails for \<^verbatim>\<open>extend\<close> at the empty batch: line 164 unpacks the batch before line 165
  reads \<^verbatim>\<open>self.compose\<close>, so the call fails with the \<^verbatim>\<open>ValueError\<close> of the unpacking
  and the composition is never dereferenced.
\<close>

theorem absent_compose_counterexample:
  "compose VS_blank = None
   \<and> fst (ValueSet_extend HttpUrl_check 2 VS_blank [] True True) = Inl ValueError
   \<and> fst (ValueSet_extend HttpUrl_check 2 VS_blank [] True True) \<noteq> Inl AttributeError"
  by (simp add: ValueSet_extend_def VS_blank_def)

text \<open>
  C9, amended.  For every value set whose composition is absent, \<^verbatim>\<open>append\<close> with
  \<^verbatim>\<open>extend_compose=True\<close>, and \<^verbatim>\<open>extend\<close> with \<^verbatim>\<open>extend_compose=True\<close> and a non-empty
  batch, fail with the \<^verbatim>\<open>AttributeError\<close> of dereferencing the missing composition, for
  every setting of the other flag; the value set is left as it was, so no composition
  is created.  \<^verbatim>\<open>extend\<close> with an empty batch fails before that, with the
  \<^verbatim>\<open>ValueError\<close> of the unpacking.
\<close>

theorem absent_compose_fails:
  assumes "compose self = None"
  shows "ValueSet_append http_url now self c True init = (Inl AttributeError, self)
     \<and> (codes \<noteq> [] \<longrightarrow>
          ValueSet_extend http_url now self codes True init = (Inl AttributeError, self))
     \<and> ValueSet_extend http_url now self [] True init = (Inl ValueError, self)"
  using assms
  by (cases codes)
     (simp_all add: ValueSet_append_def ValueSet_extend_def compose_include_append_def)

theorem absent_compose_fails_witness:
  "compose VS_A = None
   \<and> [coding_B, coding_yA] \<noteq> []
   \<and> ValueSet_append HttpUrl_check 2 VS_A coding_B True True = (Inl AttributeError, VS_A)
   \<and> ValueSet_extend HttpUrl_check 2 VS_A [coding_B, coding_yA] True True = (Inl AttributeError, VS_A)"
proof -
  have h: "compose VS_A = None"
    by (simp add: VS_A_def VS_blank_def)
  from absent_compose_fails [OF h, of HttpUrl_check 2 coding_B True "[coding_B, coding_yA]"] h
  show ?thesis
    by simp
qed

subsection \<open>Helper facts on the enumerated variant\<close>

lemma py_any_pure:
  "py_any (map (\<lambda>d. Inr (P d)) cs) = Inr (\<exists>d\<in>set cs. P d)"
  by (induction cs) auto

lemma validate_code_expanded:
  assumes "expansion self = Some e"
  shows "validate_code SimpleValueSetClass self (VSCodingItem c)
           = Inr (coding_key c \<in> coding_key ` set (contains e))"
    and "validate_code SimpleValueSetClass self (CodingItem c')
           = Inr (coding_key c' \<in> coding_key ` set (contains e))"
proof -
  have key: "(\<exists>d\<in>set ds. coding_key d = k) = (k \<in> coding_key ` set ds)"
    for k and ds :: "VSCodingWithDesignation list"
    by (induction ds) auto
  show "validate_code SimpleValueSetClass self (VSCodingItem c)
           = Inr (coding_key c \<in> coding_key ` set (contains e))"
    using assms
    by (simp add: ValueSet_iter_def has_expanded_def py_any_pure coding_eq_def key)
  show "validate_code SimpleValueSetClass self (CodingItem c')
           = Inr (coding_key c' \<in> coding_key ` set (contains e))"
    using assms
    by (simp add: ValueSet_iter_def has_expanded_def py_any_pure coding_eq_def key)
qed

lemma SimpleValueSet_init_args:
  assumes "args \<noteq> []" and "kw_expansion kw = None"
  shows "SimpleValueSet_init now args kw =
           Inr \<lparr>url = kw_url kw, name = kw_name kw, compose = kw_compose kw,
                expansion = Some \<lparr>offset = None, total = Some (int (length args)),
                  contains = args, expansion_identifier = None, timestamp = now\<rparr>,
                useContext = kw_useContext kw\<rparr>"
  using assms by (simp add: SimpleValueSet_init_def ValueSet_init_def)

lemma len_total_nonzero:
  assumes "expansion self = Some e" and "total e = Some n" and "n \<noteq> 0"
  shows "ValueSet_len self = Inr n"
  using assms by (simp add: ValueSet_len_def has_expanded_def py_or_def)

subsection \<open>C4: length and membership of an enumerated value set\<close>

text \<open>
  C4 as stated fails at the empty concept list, which is duplicate-free: the constructor
  enters its first branch only under \<^verbatim>\<open>if len(args) > 0\<close>, so \<^verbatim>\<open>SimpleValueSet()\<close> has
  no expansion, and \<^verbatim>\<open>len\<close> of it raises instead of returning 0.
\<close>

theorem enumerated_empty_counterexample:
  "distinct (map coding_key ([] :: VSCodingWithDesignation list))
   \<and> SimpleValueSet_init 1 [] kwargs_none = Inr VS_blank
   \<and> ValueSet_len VS_blank = Inl (AssertionError NoExpansionAfterExpand)
   \<and> ValueSet_len VS_blank \<noteq> Inr (int (length ([] :: VSCodingWithDesignation list)))"
  by (simp add: SimpleValueSet_init_def ValueSet_init_def ValueSet_len_def
        private_expand_def has_expanded_def kwargs_none_def VS_blank_def)

text \<open>
  C4, amended.  For every enumerated value set \<open>V\<close> built from a non-empty
  duplicate-free concept list \<open>C\<close> (and keyword arguments without \<^verbatim>\<open>expansion\<close>, which
  the constructor's assertion demands): the construction succeeds; \<^verbatim>\<open>len(V)\<close> is
  \<^verbatim>\<open>len(C)\<close>; every \<open>c\<close> in \<open>C\<close> is a member; every concept whose (system, code) pair
  differs from those of all elements of \<open>C\<close> is not a member; and membership of any
  coding, with or without designations, is decided by its (system, code) pair alone.
  The equality of codings is the one the spec gives, the class \<^verbatim>\<open>Coding\<close> not being
  among the sources.  (The proof does not need \<open>C\<close> to be duplicate-free.)
\<close>

theorem enumerated_len_and_membership:
  assumes "args \<noteq> []" and "distinct (map coding_key args)" and "kw_expansion kw = None"
  shows "\<exists>V. SimpleValueSet_init now args kw = Inr V
     \<and> ValueSet_len V = Inr (int (length args))
     \<and> (\<forall>c\<in>set args. ValueSet_contains SimpleValueSetClass V (VSCodingItem c) = Inr True)
     \<and> (\<forall>c. coding_key c \<notin> coding_key ` set args \<longrightarrow>
            ValueSet_contains SimpleValueSetClass V (VSCodingItem c) = Inr False)
     \<and> (\<forall>c. ValueSet_contains SimpleValueSetClass V (VSCodingItem c)
            = Inr (coding_key c \<in> coding_key ` set args))
     \<and> (\<forall>c. ValueSet_contains SimpleValueSetClass V (CodingItem c)
            = Inr (coding_key c \<in> coding_key ` set args))"
proof -
  let ?e = "\<lparr>offset = None, total = Some (int (length args)), contains = args,
             expansion_identifier = None, timestamp = now\<rparr>"
  let ?V = "\<lparr>url = kw_url kw, name = kw_name kw, compose = kw_compose kw,
             expansion = Some ?e, useContext = kw_useContext kw\<rparr>"
  have built: "SimpleValueSet_init now args kw = Inr ?V"
    using assms(1,3) by (rule SimpleValueSet_init_args)
  have ex: "expansion ?V = Some ?e"
    by simp
  have "int (length args) \<noteq> 0"
    using assms(1) by simp
  then have len: "ValueSet_len ?V = Inr (int (length args))"
    using len_total_nonzero [OF ex, of "int (length args)"] by simp
  have vs: "ValueSet_contains SimpleValueSetClass ?V (VSCodingItem c)
              = Inr (coding_key c \<in> coding_key ` set args)" for c
    using validate_code_expanded(1) [OF ex, of c] by simp
  have cs: "ValueSet_contains SimpleValueSetClass ?V (CodingItem c)
              = Inr (coding_key c \<in> coding_key ` set args)" for c
    using validate_code_expanded(2) [OF ex, of c] by simp
  have mem: "\<forall>c\<in>set args. ValueSet_contains SimpleValueSetClass ?V (VSCodingItem c) = Inr True"
    by (simp add: vs del: ValueSet_contains.simps)
  have non: "\<forall>c. coding_key c \<notin> coding_key ` set args \<longrightarrow>
        ValueSet_contains SimpleValueSetClass ?V (VSCodingItem c) = Inr False"
    by (simp add: vs del: ValueSet_contains.simps)
  have vs_all: "\<forall>c. ValueSet_contains SimpleValueSetClass ?V (VSCodingItem c)
        = Inr (coding_key c \<in> coding_key ` set args)"
    by (intro allI) (rule vs)
  have cs_all: "\<forall>c. ValueSet_contains SimpleValueSetClass ?V (CodingItem c)
        = Inr (coding_key c \<in> coding_key ` set args)"
    by (intro allI) (rule cs)
  show ?thesis
    by (rule exI [of _ ?V]) (intro conjI built len mem non vs_all cs_all)
qed

text \<open>
  At the spec's scenario \<^verbatim>\<open>SimpleValueSet(http://x|A, http://x|B)\<close>: length 2,
  \<^verbatim>\<open>http://x|A\<close> a member, also under another display and with a designation,
  \<^verbatim>\<open>http://y|A\<close> not a member.
\<close>

theorem enumerated_len_and_membership_witness:
  "[coding_A, coding_B] \<noteq> []
   \<and> distinct (map coding_key [coding_A, coding_B])
   \<and> kw_expansion kwargs_none = None
   \<and> (\<exists>V. SimpleValueSet_init 1 [coding_A, coding_B] kwargs_none = Inr V
        \<and> ValueSet_len V = Inr 2
        \<and> ValueSet_contains SimpleValueSetClass V (VSCodingItem coding_A) = Inr True
        \<and> ValueSet_contains SimpleValueSetClass V (VSCodingItem coding_B) = Inr True
        \<and> ValueSet_contains SimpleValueSetClass V (VSCodingItem coding_A_labelled) = Inr True
        \<and> ValueSet_contains SimpleValueSetClass V (VSCodingItem coding_yA) = Inr False)"
proof -
  have h1: "[coding_A, coding_B] \<noteq> []"
    by simp
  have h2: "distinct (map coding_key [coding_A, coding_B])"
    by (simp add: coding_key_def coding_A_def coding_B_def)
  have h3: "kw_expansion kwargs_none = None"
    by (simp add: kwargs_none_def)
  have k: "coding_key coding_A_labelled \<in> coding_key ` set [coding_A, coding_B]"
    "coding_key coding_yA \<notin> coding_key ` set [coding_A, coding_B]"
    by (simp_all add: coding_key_def example_defs)
  from enumerated_len_and_membership [OF h1 h2 h3, of 1] obtain V where
    V: "SimpleValueSet_init 1 [coding_A, coding_B] kwargs_none = Inr V"
      "ValueSet_len V = Inr (int (length [coding_A, coding_B]))"
      "\<forall>c\<in>set [coding_A, coding_B].
          ValueSet_contains SimpleValueSetClass V (VSCodingItem c) = Inr True"
      "\<forall>c. ValueSet_contains SimpleValueSetClass V (VSCodingItem c)
          = Inr (coding_key c \<in> coding_key ` set [coding_A, coding_B])"
    by blast
  have "ValueSet_len V = Inr 2"
    using V(2) by simp
  moreover have "ValueSet_contains SimpleValueSetClass V (VSCodingItem coding_A) = Inr True"
    "ValueSet_contains SimpleValueSetClass V (VSCodingItem coding_B) = Inr True"
    using V(3) by simp_all
  moreover have "ValueSet_contains SimpleValueSetClass V (VSCodingItem coding_A_labelled) = Inr True"
    "ValueSet_contains SimpleValueSetClass V (VSCodingItem coding_yA) = Inr False"
    using V(4) k by simp_all
  ultimately show ?thesis
    using h1 h2 h3 V(1) by blast
qed

subsection \<open>C5: what the constructor of the enumerated variant builds\<close>

text \<open>
  C5 as stated fails in its second half: the constructor passes \<^verbatim>\<open>expansion\<close> and
  \<^verbatim>\<open>text\<close> to the base class and nothing else, so \<^verbatim>\<open>SimpleValueSet(coding_A)\<close> has no
  composition at all, hence no include rule for the system \<^verbatim>\<open>http://x\<close>.
\<close>

theorem enumerated_compose_counterexample:
  "SimpleValueSet_init 1 [coding_A] kwargs_none = Inr VS_A \<and> compose VS_A = None"
  by (simp add: SimpleValueSet_init_def ValueSet_init_def kwargs_none_def VS_A_def
        VS_blank_def)

text \<open>
  C5, amended.  Constructing an enumerated value set from a non-empty list of coded
  concepts (and keyword arguments without \<^verbatim>\<open>expansion\<close>) populates the expansion
  directly with those concepts, in order, with \<^verbatim>\<open>total\<close> their number; the
  composition is the one the caller passed as keyword argument, absent when none was
  passed: the constructor synthesizes no include rule.
\<close>

theorem enumerated_construction:
  assumes "args \<noteq> []" and "kw_expansion kw = None"
  shows "\<exists>V. SimpleValueSet_init now args kw = Inr V
     \<and> expansion V = Some \<lparr>offset = None, total = Some (int (length args)),
          contains = args, expansion_identifier = None, timestamp = now\<rparr>
     \<and> compose V = kw_compose kw"
  using SimpleValueSet_init_args [OF assms, of now] by simp

theorem enumerated_construction_witness:
  "[coding_A, coding_yA] \<noteq> []
   \<and> kw_expansion kwargs_none = None
   \<and> (\<exists>V. SimpleValueSet_init 1 [coding_A, coding_yA] kwargs_none = Inr V
        \<and> map_option contains (expansion V) = Some [coding_A, coding_yA]
        \<and> map_option total (expansion V) = Some (Some 2)
        \<and> compose V = None)"
proof -
  have h1: "[coding_A, coding_yA] \<noteq> []"
    by simp
  have h2: "kw_expansion kwargs_none = None"
    by (simp add: kwargs_none_def)
  from enumerated_construction [OF h1 h2, of 1] obtain V where
    V: "SimpleValueSet_init 1 [coding_A, coding_yA] kwargs_none = Inr V"
      "expansion V = Some \<lparr>offset = None, total = Some (int (length [coding_A, coding_yA])),
          contains = [coding_A, coding_yA], expansion_identifier = None, timestamp = 1\<rparr>"
      "compose V = kw_compose kwargs_none"
    by blast
  have "map_option contains (expansion V) = Some [coding_A, coding_yA]"
    "map_option total (expansion V) = Some (Some 2)"
    "compose V = None"
    using V(2,3) by (simp_all add: kwargs_none_def)
  then show ?thesis
    using h1 h2 V(1) by blast
qed

subsection \<open>Helper facts on append and extend\<close>

lemma append_expanded:
  assumes "expansion self = Some e"
  shows "ValueSet_append http_url now self c False init =
           (Inr (), self\<lparr>expansion := Some (e\<lparr>contains := contains e @ [c]\<rparr>)\<rparr>)"
  using assms
  by (simp add: ValueSet_append_def expansion_contains_extend_def has_expanded_def)

lemma append_initialises:
  assumes "expansion self = None"
  shows "ValueSet_append http_url now self c False True =
           (Inr (), self\<lparr>expansion := Some ((VSExpansion_default now)\<lparr>contains := [c]\<rparr>)\<rparr>)"
  using assms
  by (simp add: ValueSet_append_def expansion_contains_extend_def has_expanded_def
        init_expansion_def VSExpansion_default_def)

text \<open>
  \<^verbatim>\<open>append\<close> leaves \<^verbatim>\<open>expansion.total\<close> as it was, and \<^verbatim>\<open>__len__\<close> prefers a non-zero
  total to the length of the list: the length does not follow the append.
\<close>

lemma append_len_stale:
  assumes "expansion self = Some e" and "total e = Some n" and "n \<noteq> 0"
  shows "ValueSet_len self = Inr n"
    and "ValueSet_len (snd (ValueSet_append http_url now self c False init)) = Inr n"
  using assms
  by (simp_all add: append_expanded ValueSet_len_def has_expanded_def py_or_def)

text \<open>
  \<^verbatim>\<open>extend\<close> on a value set that has an expansion: without the initialisation flag the
  batch is appended and what was there is kept; with the flag (the default) line 169
  replaces the expansion by a fresh one first, and what was there is lost.
\<close>

lemma extend_expanded_no_init:
  assumes "expansion self = Some e"
  shows "ValueSet_extend http_url now self codes False False =
           (Inr (), self\<lparr>expansion := Some (e\<lparr>contains := contains e @ codes\<rparr>)\<rparr>)"
  using assms
  by (simp add: ValueSet_extend_def expansion_contains_extend_def has_expanded_def)

lemma extend_expanded_init_resets:
  assumes "expansion self = Some e"
  shows "ValueSet_extend http_url now self codes False True =
           (Inr (), self\<lparr>expansion := Some ((VSExpansion_default now)\<lparr>contains := codes\<rparr>)\<rparr>)"
  using assms
  by (simp add: ValueSet_extend_def expansion_contains_extend_def has_expanded_def
        init_expansion_def VSExpansion_default_def)

text \<open>\<^verbatim>\<open>extend\<close> on a value set without an expansion never initialises one.\<close>

lemma extend_unexpanded_fails:
  assumes "expansion self = None"
  shows "fst (ValueSet_extend http_url now self codes False init)
           = Inl (AssertionError ExpansionNoneAfterInit)"
    and "snd (ValueSet_extend http_url now self codes False init) = self"
  using assms
  by (simp_all add: ValueSet_extend_def expansion_contains_extend_def has_expanded_def)

text \<open>
  The composition part of \<^verbatim>\<open>extend\<close>: on a value set with a composition and a
  non-empty batch whose first system is an HTTP URL, exactly one include rule is
  appended, scoped to the first concept's system and listing all concepts of the batch
  in order, whatever happens afterwards.  When the first system is not an HTTP URL the
  call raises pydantic's error before it writes anything.
\<close>

lemma extend_compose_rule:
  assumes "compose self = Some cmp" and "http_url (system x)"
  shows "compose (snd (ValueSet_extend http_url now self (x # xs) True init)) =
           Some (cmp\<lparr>compose_include := compose_include cmp @
                   [\<lparr>include_system = Some (system x), include_version = None,
                     concept = map VSConcept_of (x # xs), include_filter = [],
                     valueSet = []\<rparr>]\<rparr>)"
  using assms
  by (simp add: ValueSet_extend_def compose_include_append_def VSInclude_init_def
        expansion_contains_extend_def init_expansion_def split: option.split)

lemma extend_invalid_system:
  assumes "compose self = Some cmp" and "\<not> http_url (system x)"
  shows "ValueSet_extend http_url now self (x # xs) True init = (Inl ValidationError, self)"
    and "ValueSet_append http_url now self x True init = (Inl ValidationError, self)"
  using assms
  by (simp_all add: ValueSet_extend_def ValueSet_append_def compose_include_append_def
        VSInclude_init_def)

text \<open>
  With the default flags, on a value set that has a composition and an expansion, and
  a batch whose first system is an HTTP URL: the rule is appended, the expansion is
  replaced by a fresh one, and the batch is all it holds.
\<close>

lemma extend_default_resets:
  assumes "compose self = Some cmp" and "expansion self = Some e" and "http_url (system x)"
  shows "ValueSet_extend http_url now self (x # xs) True True =
           (Inr (),
            self\<lparr>compose := Some (cmp\<lparr>compose_include := compose_include cmp @
                     [\<lparr>include_system = Some (system x), include_version = None,
                       concept = map VSConcept_of (x # xs), include_filter = [],
                       valueSet = []\<rparr>]\<rparr>),
                 expansion := Some ((VSExpansion_default now)\<lparr>contains := x # xs\<rparr>)\<rparr>)"
  using assms
  by (simp add: ValueSet_extend_def compose_include_append_def VSInclude_init_def
        expansion_contains_extend_def has_expanded_def init_expansion_def
        VSExpansion_default_def)

lemma HttpUrl_check_examples:
  "HttpUrl_check ''http://x.org''" and "\<not> HttpUrl_check ''http://x''"
  by (simp_all add: HttpUrl_check_def url_host_def host_tld_def)

subsection \<open>C1: extend and the expansion\<close>

text \<open>
  C1 says that \<^verbatim>\<open>extend\<close> keeps the concepts already in an expansion, and that it
  initialises an empty expansion when there is none and the flag is set.  The sibling
  \<^verbatim>\<open>append\<close> does both under \<^verbatim>\<open>if not self.has_expanded and init_expansion_if_none\<close>
  (line 149); line 169 of \<^verbatim>\<open>extend\<close> has the same test without the \<^verbatim>\<open>not\<close>, followed
  by the same assertion "self.expansion is None after initialisation".  What the code
  does, at codings of the system \<^verbatim>\<open>http://x.org\<close>, which passes the check of
  \<^verbatim>\<open>VSInclude\<close>: on a value set whose expansion holds \<^verbatim>\<open>http://x.org|A\<close>, extending by
  \<^verbatim>\<open>http://x.org|B\<close> with \<^verbatim>\<open>init_expansion_if_none=True\<close> leaves an expansion that
  holds \<^verbatim>\<open>http://x.org|B\<close> alone, with \<^verbatim>\<open>extend_compose=False\<close> as with the default
  \<^verbatim>\<open>True\<close>; on a value set with a composition and no expansion the same call raises
  the assertion error, no expansion being initialised (with \<^verbatim>\<open>extend_compose=True\<close>
  after it has appended the include rule).  \<^verbatim>\<open>append\<close> on the same two value sets
  keeps \<^verbatim>\<open>http://x.org|A\<close> and initialises the expansion.
\<close>

theorem extend_inverted_guard:
  "HttpUrl_check (system coding_orgB)
   \<and> map_option contains (expansion VS_listed) = Some [coding_orgA]
   \<and> ValueSet_extend HttpUrl_check 2 VS_listed [coding_orgB] False True =
     (Inr (),
      VS_listed\<lparr>expansion := Some ((VSExpansion_default 2)\<lparr>contains := [coding_orgB]\<rparr>)\<rparr>)
   \<and> ValueSet_extend HttpUrl_check 2 VS_listed [coding_orgB] True True =
     (Inr (),
      VS_listed\<lparr>compose := Some (compose_empty\<lparr>compose_include :=
                     [\<lparr>include_system = Some ''http://x.org'', include_version = None,
                       concept = [VSConcept_of coding_orgB], include_filter = [],
                       valueSet = []\<rparr>]\<rparr>),
                expansion := Some ((VSExpansion_default 2)\<lparr>contains := [coding_orgB]\<rparr>)\<rparr>)
   \<and> expansion VS_rules = None
   \<and> ValueSet_extend HttpUrl_check 2 VS_rules [coding_orgB] False True =
     (Inl (AssertionError ExpansionNoneAfterInit), VS_rules)
   \<and> ValueSet_extend HttpUrl_check 2 VS_rules [coding_orgB] True True =
     (Inl (AssertionError ExpansionNoneAfterInit),
      VS_rules\<lparr>compose := Some (compose_empty\<lparr>compose_include :=
                     [\<lparr>include_system = Some ''http://x.org'', include_version = None,
                       concept = [VSConcept_of coding_orgB], include_filter = [],
                       valueSet = []\<rparr>]\<rparr>)\<rparr>)
   \<and> map_option contains
        (expansion (snd (ValueSet_append HttpUrl_check 2 VS_listed coding_orgB True True)))
       = Some [coding_orgA, coding_orgB]
   \<and> map_option contains
        (expansion (snd (ValueSet_append HttpUrl_check 2 VS_rules coding_orgB True True)))
       = Some [coding_orgB]"
proof -
  have ok: "HttpUrl_check ''http://x.org''"
    by (simp add: HttpUrl_check_def url_host_def host_tld_def)
  then have ok': "HttpUrl_check (system coding_orgB)"
    by (simp add: coding_orgB_def)
  show ?thesis
    using ok ok'
    by (simp add: ValueSet_extend_def ValueSet_append_def compose_include_append_def
          VSInclude_init_def expansion_contains_extend_def has_expanded_def
          init_expansion_def VSExpansion_default_def VS_listed_def VS_rules_def
          VS_blank_def compose_empty_def coding_orgB_def)
qed

subsection \<open>C3: append and the length of an enumerated value set\<close>

text \<open>
  C3 says that \<^verbatim>\<open>append(c)\<close> on an enumerated value set increases \<^verbatim>\<open>len\<close> by exactly 1
  and makes \<open>c\<close> a member.  The constructor stores \<^verbatim>\<open>total=len(args)\<close>, \<^verbatim>\<open>append\<close>
  writes \<^verbatim>\<open>expansion.contains\<close> and not \<^verbatim>\<open>expansion.total\<close>, and \<^verbatim>\<open>__len__\<close> returns
  the total.  What the code does on \<^verbatim>\<open>V = SimpleValueSet(coding_A)\<close>: \<^verbatim>\<open>len(V)\<close> is 1;
  after \<^verbatim>\<open>V.append(coding_B, extend_compose=False)\<close> the coding is a member and
  \<^verbatim>\<open>len(V)\<close> is still 1; and \<^verbatim>\<open>V.append(coding_B)\<close> with the default flags raises
  \<^verbatim>\<open>AttributeError\<close>, the constructor having built no composition, and appends nothing.
\<close>

theorem append_enumerated_len_unchanged:
  "SimpleValueSet_init 1 [coding_A] kwargs_none = Inr VS_A
   \<and> ValueSet_len VS_A = Inr 1
   \<and> fst (ValueSet_append HttpUrl_check 2 VS_A coding_B False True) = Inr ()
   \<and> map_option contains (expansion (snd (ValueSet_append HttpUrl_check 2 VS_A coding_B False True)))
       = Some [coding_A, coding_B]
   \<and> ValueSet_contains SimpleValueSetClass
        (snd (ValueSet_append HttpUrl_check 2 VS_A coding_B False True)) (VSCodingItem coding_B) = Inr True
   \<and> ValueSet_len (snd (ValueSet_append HttpUrl_check 2 VS_A coding_B False True)) = Inr 1
   \<and> ValueSet_append HttpUrl_check 2 VS_A coding_B True True = (Inl AttributeError, VS_A)"
proof -
  let ?e = "\<lparr>offset = None, total = Some 1, contains = [coding_A],
             expansion_identifier = None, timestamp = 1\<rparr>"
  have ex: "expansion VS_A = Some ?e"
    by (simp add: VS_A_def)
  have built: "SimpleValueSet_init 1 [coding_A] kwargs_none = Inr VS_A"
    by (simp add: SimpleValueSet_init_def ValueSet_init_def kwargs_none_def VS_A_def
          VS_blank_def)
  have app: "ValueSet_append HttpUrl_check 2 VS_A coding_B False True =
      (Inr (), VS_A\<lparr>expansion := Some (?e\<lparr>contains := contains ?e @ [coding_B]\<rparr>)\<rparr>)"
    using ex by (rule append_expanded)
  have len0: "ValueSet_len VS_A = Inr 1"
    using append_len_stale(1) [OF ex, of 1] by simp
  have len1: "ValueSet_len (snd (ValueSet_append HttpUrl_check 2 VS_A coding_B False True)) = Inr 1"
    using append_len_stale(2) [OF ex, of 1 HttpUrl_check 2 coding_B True] by simp
  have mem: "ValueSet_contains SimpleValueSetClass
      (snd (ValueSet_append HttpUrl_check 2 VS_A coding_B False True)) (VSCodingItem coding_B) = Inr True"
    by (simp add: app ValueSet_iter_def has_expanded_def coding_eq_def)
  have dflt: "ValueSet_append HttpUrl_check 2 VS_A coding_B True True = (Inl AttributeError, VS_A)"
    by (simp add: ValueSet_append_def compose_include_append_def VS_A_def VS_blank_def)
  from built len0 len1 mem dflt show ?thesis
    by (simp add: app)
qed

end
